theory Spec2Isabelle
  imports Complex_Main
begin

section \<open>Google Drive download and upload scripts: a shallow embedding\<close>

text \<open>
  The theory embeds the planning logic of \<^verbatim>\<open>download_drive.py\<close> and the overwrite
  path of \<^verbatim>\<open>drive_upload_to_folder.py\<close>. Python strings are \<open>string\<close>s (file names
  as their UTF-8 bytes: the separators \<open>/\<close> and \<open>.\<close> are single bytes that occur in no
  multi-byte character, so searching for them byte-wise is searching for them
  character-wise). Python's unbounded integers that count bytes are \<open>nat\<close>. Console
  output is not modelled. The remote service is modelled by what its requests return.
\<close>

subsection \<open>Paths: \<^verbatim>\<open>os.path.splitext\<close> and \<^verbatim>\<open>os.path.join\<close> (POSIX)\<close>

text \<open>
  \<^verbatim>\<open>str.rfind\<close>: the highest index at which the character occurs, \<open>-1\<close> when it
  does not occur.
\<close>

fun rfind :: "string \<Rightarrow> char \<Rightarrow> int" where
  "rfind [] c = - 1"
| "rfind (x # xs) c =
     (let r = rfind xs c
      in if 0 \<le> r then r + 1 else if x = c then 0 else - 1)"

text \<open>
  The loop of \<^verbatim>\<open>genericpath._splitext\<close> that skips the leading dots of the last path
  component:
  \<^verbatim>\<open>
    while filenameIndex < dotIndex:
        if p[filenameIndex:filenameIndex+1] != extsep:
            return p[:dotIndex], p[dotIndex:]
        filenameIndex += 1
  \<close>
  The model returns whether the loop leaves through its \<^verbatim>\<open>return\<close>.
\<close>

function skip_leading_dots :: "string \<Rightarrow> nat \<Rightarrow> nat \<Rightarrow> bool" where
  "skip_leading_dots p filenameIndex dotIndex =
     (if filenameIndex < dotIndex
      then (if p ! filenameIndex \<noteq> CHR ''.'' then True
            else skip_leading_dots p (Suc filenameIndex) dotIndex)
      else False)"
  by pat_completeness auto
termination
  by (relation "measure (\<lambda>(p, filenameIndex, dotIndex). dotIndex - filenameIndex)") auto

declare skip_leading_dots.simps [simp del]

text \<open>
  \<^verbatim>\<open>posixpath.splitext\<close> (separator \<open>/\<close>, no alternative separator, extension
  separator \<open>.\<close>):
  \<^verbatim>\<open>
    sepIndex = p.rfind(sep)
    dotIndex = p.rfind(extsep)
    if dotIndex > sepIndex:
        filenameIndex = sepIndex + 1
        (the loop above)
    return p, p[:0]
  \<close>
\<close>

definition splitext :: "string \<Rightarrow> string \<times> string" where
  "splitext p =
     (let sepIndex = rfind p CHR ''/'';
          dotIndex = rfind p CHR ''.''
      in if sepIndex < dotIndex \<and> skip_leading_dots p (nat (sepIndex + 1)) (nat dotIndex)
         then (take (nat dotIndex) p, drop (nat dotIndex) p)
         else (p, []))"

definition get_file_extension :: "string \<Rightarrow> string" where
  "get_file_extension file_name = snd (splitext file_name)"

text \<open>
  \<^verbatim>\<open>posixpath.join\<close> with two arguments: an absolute second part replaces the
  first; otherwise the parts are joined by one separator, none after an empty first part
  or one that already ends in a separator.
\<close>

definition path_join :: "string \<Rightarrow> string \<Rightarrow> string" where
  "path_join a b =
     (if b \<noteq> [] \<and> hd b = CHR ''/'' then b
      else if a = [] \<or> last a = CHR ''/'' then a @ b
      else a @ ''/'' @ b)"

subsection \<open>The per-item filter\<close>

text \<open>
  The command line gives \<^verbatim>\<open>--mime_types\<close> and \<^verbatim>\<open>--file_extensions\<close> as a list or
  \<^verbatim>\<open>None\<close>. The Python condition \<^verbatim>\<open>xs and x not in xs\<close> is true for a list that is
  neither \<^verbatim>\<open>None\<close> nor empty and does not hold \<open>x\<close>.
\<close>

definition and_not_in :: "string list option \<Rightarrow> string \<Rightarrow> bool" where
  "and_not_in xs x = (case xs of None \<Rightarrow> False | Some l \<Rightarrow> l \<noteq> [] \<and> x \<notin> set l)"

text \<open>
  \<^verbatim>\<open>file_path and os.path.exists(file_path)\<close>: \<^verbatim>\<open>None\<close> and the empty string are
  false; \<open>path_exists\<close> is \<^verbatim>\<open>os.path.exists\<close> on the local file system.
\<close>

definition and_exists :: "string option \<Rightarrow> (string \<Rightarrow> bool) \<Rightarrow> bool" where
  "and_exists file_path path_exists =
     (case file_path of None \<Rightarrow> False | Some p \<Rightarrow> p \<noteq> [] \<and> path_exists p)"

definition should_process_file ::
  "string \<Rightarrow> string \<Rightarrow> string option \<Rightarrow> string list option \<Rightarrow> string list option
     \<Rightarrow> bool \<Rightarrow> bool \<Rightarrow> (string \<Rightarrow> bool) \<Rightarrow> bool" where
  "should_process_file mime_type file_extension file_path mime_types file_extensions
       return_object overwrite path_exists =
     (if and_not_in mime_types mime_type then False
      else if and_not_in file_extensions file_extension then False
      else if \<not> return_object \<and> \<not> overwrite \<and> and_exists file_path path_exists then False
      else True)"

subsection \<open>Human-readable sizes\<close>







subsection \<open>The remote tree and its walker\<close>

text \<open>
  An item of a \<^verbatim>\<open>files().list\<close> response, with the fields the scripts request:
  \<^verbatim>\<open>id, name, mimeType, size\<close>. The service leaves \<^verbatim>\<open>size\<close> out for folders and
  for native documents.
\<close>

record remote_item =
  item_id :: string
  item_name :: string
  item_mimeType :: string
  item_size :: "nat option"

text \<open>
  The remote side as the tree of its responses: a node is an item together with the
  \<^verbatim>\<open>files\<close> list that the query \<^verbatim>\<open>'<id>' in parents and trashed = false\<close> returns
  for the item's identifier.
\<close>

datatype rnode = RNode (meta: remote_item) (listing: "rnode list")

definition folder_mime :: string where
  "folder_mime = ''application/vnd.google-apps.folder''"

text \<open>The dictionary a walk yields; \<open>rf_size\<close> is \<^verbatim>\<open>int(item.get('size', 0))\<close>.\<close>

record remote_file =
  rf_id :: string
  rf_name :: string
  rf_mimeType :: string
  rf_size :: nat
  rf_path :: string

definition describe :: "remote_item \<Rightarrow> string \<Rightarrow> remote_file" where
  "describe item item_path =
     \<lparr>rf_id = item_id item, rf_name = item_name item, rf_mimeType = item_mimeType item,
      rf_size = (case item_size item of None \<Rightarrow> 0 | Some n \<Rightarrow> n), rf_path = item_path\<rparr>"

text \<open>
  \<^verbatim>\<open>
    def fetch_files_in_folder(service, folder_id, recursive, current_path=''):
        items = (the listing of folder_id)
        for item in items:
            item_path = os.path.join(current_path, item['name'])
            if item['mimeType'] == 'application/vnd.google-apps.folder' and recursive:
                yield from fetch_files_in_folder(service, item['id'], recursive, item_path)
            else:
                yield {...}
  \<close>
  The generator is modelled by the list of what it yields, in order; \<open>fetch_items\<close> is
  its \<^verbatim>\<open>for\<close> loop.
\<close>

fun fetch_files_in_folder :: "rnode \<Rightarrow> bool \<Rightarrow> string \<Rightarrow> remote_file list"
  and fetch_items :: "rnode list \<Rightarrow> bool \<Rightarrow> string \<Rightarrow> remote_file list" where
  "fetch_files_in_folder (RNode folder items) recursive current_path =
     fetch_items items recursive current_path"
| "fetch_items [] recursive current_path = []"
| "fetch_items (RNode item sub # items) recursive current_path =
     (let item_path = path_join current_path (item_name item)
      in (if item_mimeType item = folder_mime \<and> recursive
          then fetch_files_in_folder (RNode item sub) recursive item_path
          else [describe item item_path])
         @ fetch_items items recursive current_path)"

subsection \<open>The local tree and the size total\<close>

text \<open>
  What a local path leads to: a regular file of some size, or a directory with its
  entries by name. A file system is a function from paths to what is there, \<open>None\<close>
  where nothing exists.
\<close>

datatype fsnode = FFile nat | FDir "(string \<times> fsnode) list"

type_synonym filesystem = "string \<Rightarrow> fsnode option"

fun is_dir :: "fsnode \<Rightarrow> bool" where
  "is_dir (FDir entries) = True"
| "is_dir (FFile n) = False"

fun file_sizes :: "(string \<times> fsnode) list \<Rightarrow> (string \<times> nat) list" where
  "file_sizes [] = []"
| "file_sizes ((name, FFile n) # entries) = (name, n) # file_sizes entries"
| "file_sizes ((name, FDir sub) # entries) = file_sizes entries"

text \<open>
  \<^verbatim>\<open>os.walk\<close>, top down: one triple per directory, the directory first and then its
  subdirectories in turn; nothing for a regular file. The model's \<open>dirpath\<close> (the source's \<^verbatim>\<open>root\<close>) is the
  directory's path below the walked top (empty for the top itself), and each file name
  comes with the size \<^verbatim>\<open>os.path.getsize\<close> reads, so that
  \<^verbatim>\<open>os.path.relpath(os.path.join(root, name), local_folder_path)\<close> is
  \<open>path_join dirpath name\<close> in the model.
\<close>

fun os_walk :: "string \<Rightarrow> fsnode \<Rightarrow> (string \<times> string list \<times> (string \<times> nat) list) list" where
  "os_walk dirpath (FFile n) = []"
| "os_walk dirpath (FDir entries) =
     (dirpath, map fst (filter (\<lambda>e. is_dir (snd e)) entries), file_sizes entries)
       # concat (map (\<lambda>e. os_walk (path_join dirpath (fst e)) (snd e)) entries)"

text \<open>\<^verbatim>\<open>os.walk\<close> of a path: no triple at all for a path that does not exist.\<close>

definition os_walk_path :: "filesystem \<Rightarrow> string \<Rightarrow> (string \<times> string list \<times> (string \<times> nat) list) list" where
  "os_walk_path fs path = (case fs path of None \<Rightarrow> [] | Some node \<Rightarrow> os_walk [] node)"

text \<open>
  \<^verbatim>\<open>
    for root, _, files in os.walk(local_folder_path):
        for name in files:
            local_file_path = os.path.join(root, name)
            relative_path = os.path.relpath(local_file_path, local_folder_path)
            local_files[relative_path] = os.path.getsize(local_file_path)
  \<close>
\<close>

fun record_files :: "string \<Rightarrow> (string \<times> nat) list \<Rightarrow> (string \<rightharpoonup> nat) \<Rightarrow> (string \<rightharpoonup> nat)" where
  "record_files dirpath [] local_files = local_files"
| "record_files dirpath ((name, n) # files) local_files =
     record_files dirpath files (local_files(path_join dirpath name \<mapsto> n))"

fun record_walk ::
  "(string \<times> string list \<times> (string \<times> nat) list) list \<Rightarrow> (string \<rightharpoonup> nat) \<Rightarrow> (string \<rightharpoonup> nat)" where
  "record_walk [] local_files = local_files"
| "record_walk ((dirpath, dirs, files) # triples) local_files =
     record_walk triples (record_files dirpath files local_files)"

text \<open>
  \<^verbatim>\<open>
    total_size = 0
    for remote_file in remote_files:
        remote_file_path = remote_file['path']
        remote_file_size = int(remote_file['size'])
        if remote_file_path in local_files:
            if not overwrite:
                continue
        total_size += remote_file_size
  \<close>
\<close>

fun add_sizes :: "remote_file list \<Rightarrow> (string \<rightharpoonup> nat) \<Rightarrow> bool \<Rightarrow> nat \<Rightarrow> nat" where
  "add_sizes [] local_files overwrite total_size = total_size"
| "add_sizes (remote_file # remote_files) local_files overwrite total_size =
     (if local_files (rf_path remote_file) \<noteq> None \<and> \<not> overwrite
      then add_sizes remote_files local_files overwrite total_size
      else add_sizes remote_files local_files overwrite (total_size + rf_size remote_file))"

text \<open>
  The function takes \<open>mime_types\<close> and \<open>file_extensions\<close> and, as in the source, uses
  neither.
\<close>

definition calculate_total_download_size ::
  "rnode \<Rightarrow> filesystem \<Rightarrow> string \<Rightarrow> bool \<Rightarrow> bool \<Rightarrow> string list option \<Rightarrow> string list option
     \<Rightarrow> nat" where
  "calculate_total_download_size folder fs local_folder_path recursive overwrite
       mime_types file_extensions =
     (let remote_files = fetch_files_in_folder folder recursive [];
          local_files = record_walk (os_walk_path fs local_folder_path) Map.empty
      in add_sizes remote_files local_files overwrite 0)"

subsection \<open>The disk-space check\<close>

text \<open>
  The interactions with the outside that a call makes, in order. A call of
  \<^verbatim>\<open>calculate_total_download_size\<close> enumerates the remote files and walks the local
  folder; \<^verbatim>\<open>disk_space\<close> asks \<^verbatim>\<open>os.statvfs\<close>; the downloads get an item's metadata,
  list a folder, request an item's bytes, create a directory and write a file.
\<close>

datatype request = Export_media string string | Get_media string

datatype effect =
    Remote_enumeration string bool
  | Local_walk string
  | Statvfs string
  | Files_get string
  | Files_list string
  | Media_download request
  | Makedirs string
  | File_write string

record statvfs_result =
  f_frsize :: nat
  f_blocks :: nat
  f_bavail :: nat

record disk_info =
  total_gb :: rat
  free_gb :: rat

text \<open>
  \<^verbatim>\<open>
    def disk_space():
        st = os.statvfs('/')
        ...
        total_gb = total_blocks * block_size / (1024 ** 3)
        free_gb = free_blocks * block_size / (1024 ** 3)
        return {"total": total_gb, "free": free_gb}
  \<close>
  \<open>statvfs\<close> gives, for a path, the figures of the volume the path lies on. The
  quotients are exact rationals (see the note on sizes above).
\<close>

definition disk_space :: "(string \<Rightarrow> statvfs_result) \<Rightarrow> disk_info" where
  "disk_space statvfs =
     (let st = statvfs ''/'';
          block_size = f_frsize st;
          total_blocks = f_blocks st;
          free_blocks = f_bavail st
      in \<lparr>total_gb = of_nat (total_blocks * block_size) / 1024 ^ 3,
          free_gb = of_nat (free_blocks * block_size) / 1024 ^ 3\<rparr>)"

text \<open>Python's truth value of an optional string: \<^verbatim>\<open>None\<close> and \<^verbatim>\<open>''\<close> are false.\<close>

definition truthy :: "string option \<Rightarrow> bool" where
  "truthy s = (case s of None \<Rightarrow> False | Some p \<Rightarrow> p \<noteq> [])"

definition check_disk_space ::
  "rnode \<Rightarrow> filesystem \<Rightarrow> (string \<Rightarrow> statvfs_result) \<Rightarrow> string option \<Rightarrow> bool
     \<Rightarrow> string list option \<Rightarrow> string list option \<Rightarrow> bool \<Rightarrow> bool \<times> effect list" where
  "check_disk_space folder fs statvfs local_folder_path recursive mime_types file_extensions
       overwrite =
     (case local_folder_path of
        None \<Rightarrow> (True, [])
      | Some path \<Rightarrow>
          if path = [] then (True, [])
          else
            (let total_size = calculate_total_download_size folder fs path recursive overwrite
                   mime_types file_extensions;
                 disk_info = disk_space statvfs
             in (if free_gb disk_info < of_nat total_size / 1024 ^ 3 then False else True,
                 [Remote_enumeration (item_id (meta folder)) recursive, Local_walk path,
                  Statvfs ''/''])))"

subsection \<open>Downloading\<close>

record file_object =
  fo_file_id :: string
  fo_file_name :: string
  fo_mime_type :: string
  fo_file_extension :: string
  fo_content :: string

definition export_mime_types :: "string \<rightharpoonup> string" where
  "export_mime_types = map_of
     [(''application/vnd.google-apps.document'', ''application/pdf''),
      (''application/vnd.google-apps.spreadsheet'',
       ''application/vnd.openxmlformats-officedocument.spreadsheetml.sheet''),
      (''application/vnd.google-apps.presentation'',
       ''application/vnd.openxmlformats-officedocument.presentationml.presentation'')]"

text \<open>
  The branch of \<^verbatim>\<open>download_file\<close> that chooses the request and the file name the
  function reports from then on (in its progress lines and in the object it returns):
  \<^verbatim>\<open>
    if mime_type in export_mime_types:
        request = service.files().export_media(fileId=file_id, mimeType=export_mime_types[mime_type])
        file_name += file_extension
    else:
        request = service.files().get_media(fileId=file_id, supportsAllDrives=True)
  \<close>
\<close>

definition choose_request :: "string \<Rightarrow> string \<Rightarrow> string \<Rightarrow> string \<Rightarrow> request \<times> string" where
  "choose_request file_id file_name mime_type file_extension =
     (case export_mime_types mime_type of
        Some target \<Rightarrow> (Export_media file_id target, file_name @ file_extension)
      | None \<Rightarrow> (Get_media file_id, file_name))"

text \<open>
  \<open>media\<close> is the service's answer to a download request: the bytes, or \<open>None\<close> for an
  \<^verbatim>\<open>HttpError\<close>, which \<^verbatim>\<open>download_file\<close> catches. \<^verbatim>\<open>file_path\<close> is computed from
  the file name before the branch above changes it. A failure of the local write is not
  modelled.
\<close>

definition download_file ::
  "(request \<Rightarrow> string option) \<Rightarrow> string \<Rightarrow> string \<Rightarrow> string \<Rightarrow> string \<Rightarrow> string option \<Rightarrow> bool
     \<Rightarrow> filesystem \<Rightarrow> file_object option \<times> effect list \<times> filesystem" where
  "download_file media file_id file_name mime_type file_extension folder_path return_object fs =
     (let file_path = (case folder_path of None \<Rightarrow> None | Some d \<Rightarrow> Some (path_join d file_name))
      in case choose_request file_id file_name mime_type file_extension of
           (request, reported_name) \<Rightarrow>
             (case media request of
                None \<Rightarrow> (None, [Media_download request], fs)
              | Some content \<Rightarrow>
                  if return_object
                  then (Some \<lparr>fo_file_id = file_id, fo_file_name = reported_name,
                               fo_mime_type = mime_type, fo_file_extension = file_extension,
                               fo_content = content\<rparr>,
                        [Media_download request], fs)
                  else (case file_path of
                          None \<Rightarrow> (None, [Media_download request], fs)
                        | Some p \<Rightarrow>
                            (None, [Media_download request, File_write p],
                             fs(p \<mapsto> FFile (length content))))))"

text \<open>\<^verbatim>\<open>os.makedirs(folder_path, exist_ok=True)\<close>: nothing changes where the path exists.\<close>

definition makedirs :: "filesystem \<Rightarrow> string \<Rightarrow> filesystem" where
  "makedirs fs path = (case fs path of None \<Rightarrow> fs(path \<mapsto> FDir []) | Some node \<Rightarrow> fs)"

text \<open>\<^verbatim>\<open>os.path.join(folder_path, file_name) if folder_path else None\<close>\<close>

definition join_if :: "string option \<Rightarrow> string \<Rightarrow> string option" where
  "join_if folder_path file_name =
     (case folder_path of
        None \<Rightarrow> None
      | Some d \<Rightarrow> if d = [] then None else Some (path_join d file_name))"

text \<open>
  \<^verbatim>\<open>download_files_in_folder\<close> and its \<^verbatim>\<open>for\<close> loop (\<open>download_items\<close>). The local
  file system is passed along: a file written for one item exists when the next item
  is looked at. The result is the list of returned objects, the effects and the file
  system afterwards.
\<close>

fun download_files_in_folder ::
  "(request \<Rightarrow> string option) \<Rightarrow> rnode \<Rightarrow> string option \<Rightarrow> bool \<Rightarrow> bool \<Rightarrow> bool
     \<Rightarrow> string list option \<Rightarrow> string list option \<Rightarrow> filesystem
     \<Rightarrow> file_object list \<times> effect list \<times> filesystem"
  and download_items ::
  "(request \<Rightarrow> string option) \<Rightarrow> rnode list \<Rightarrow> string option \<Rightarrow> bool \<Rightarrow> bool \<Rightarrow> bool
     \<Rightarrow> string list option \<Rightarrow> string list option \<Rightarrow> filesystem
     \<Rightarrow> file_object list \<times> effect list \<times> filesystem" where
  "download_files_in_folder media (RNode folder items) folder_path recursive overwrite
       return_object mime_types file_extensions fs =
     (if items = [] then ([], [Files_list (item_id folder)], fs)
      else
        (case folder_path of
           Some d \<Rightarrow>
             if \<not> return_object
             then (case download_items media items folder_path recursive overwrite return_object
                          mime_types file_extensions (makedirs fs d) of
                     (file_objects, effects, fs') \<Rightarrow>
                       (file_objects, Files_list (item_id folder) # Makedirs d # effects, fs'))
             else (case download_items media items folder_path recursive overwrite return_object
                          mime_types file_extensions fs of
                     (file_objects, effects, fs') \<Rightarrow>
                       (file_objects, Files_list (item_id folder) # effects, fs'))
         | None \<Rightarrow>
             (case download_items media items folder_path recursive overwrite return_object
                     mime_types file_extensions fs of
                (file_objects, effects, fs') \<Rightarrow>
                  (file_objects, Files_list (item_id folder) # effects, fs'))))"
| "download_items media [] folder_path recursive overwrite return_object mime_types
       file_extensions fs = ([], [], fs)"
| "download_items media (RNode item sub # items) folder_path recursive overwrite return_object
       mime_types file_extensions fs =
     (let file_id = item_id item;
          file_name = item_name item;
          mime_type = item_mimeType item;
          file_extension = get_file_extension file_name
      in if mime_type = folder_mime
         then
           (if recursive
            then
              (case download_files_in_folder media (RNode item sub) (join_if folder_path file_name)
                      recursive overwrite return_object mime_types file_extensions fs of
                 (sub_objects, sub_effects, fs1) \<Rightarrow>
                   (case download_items media items folder_path recursive overwrite return_object
                           mime_types file_extensions fs1 of
                      (file_objects, effects, fs2) \<Rightarrow>
                        (sub_objects @ file_objects, sub_effects @ effects, fs2)))
            else download_items media items folder_path recursive overwrite return_object
                   mime_types file_extensions fs)
         else
           (if \<not> should_process_file mime_type file_extension (join_if folder_path file_name)
                   mime_types file_extensions return_object overwrite (\<lambda>p. fs p \<noteq> None)
            then download_items media items folder_path recursive overwrite return_object
                   mime_types file_extensions fs
            else
              (case download_file media file_id file_name mime_type file_extension folder_path
                      return_object fs of
                 (file_object, dl_effects, fs1) \<Rightarrow>
                   (case download_items media items folder_path recursive overwrite return_object
                           mime_types file_extensions fs1 of
                      (file_objects, effects, fs2) \<Rightarrow>
                        ((if return_object
                          then (case file_object of None \<Rightarrow> [] | Some obj \<Rightarrow> [obj])
                          else []) @ file_objects,
                         dl_effects @ effects, fs2)))))"

text \<open>
  \<^verbatim>\<open>process_drive_item\<close>: \<open>item\<close> is the node of the identifier given on the command
  line, whose metadata \<^verbatim>\<open>files().get\<close> returns.
\<close>

definition process_drive_item ::
  "(request \<Rightarrow> string option) \<Rightarrow> rnode \<Rightarrow> string option \<Rightarrow> bool \<Rightarrow> bool \<Rightarrow> bool
     \<Rightarrow> string list option \<Rightarrow> string list option \<Rightarrow> filesystem
     \<Rightarrow> file_object list \<times> effect list \<times> filesystem" where
  "process_drive_item media item local_folder_path recursive overwrite return_object
       mime_types file_extensions fs =
     (let mime_type = item_mimeType (meta item);
          item_name = item_name (meta item);
          file_extension = get_file_extension item_name
      in if mime_type = folder_mime
         then
           (case download_files_in_folder media item local_folder_path recursive overwrite
                   return_object mime_types file_extensions fs of
              (file_objects, effects, fs') \<Rightarrow>
                (file_objects, Files_get (item_id (meta item)) # effects, fs'))
         else
           (if \<not> should_process_file mime_type file_extension
                   (join_if local_folder_path item_name) mime_types file_extensions
                   return_object overwrite (\<lambda>p. fs p \<noteq> None)
            then ([], [Files_get (item_id (meta item))], fs)
            else
              (case download_file media (item_id (meta item)) item_name mime_type
                      file_extension local_folder_path return_object fs of
                 (file_object, effects, fs') \<Rightarrow>
                   ((if return_object
                     then (case file_object of None \<Rightarrow> [] | Some obj \<Rightarrow> [obj])
                     else []),
                    Files_get (item_id (meta item)) # effects, fs'))))"

text \<open>
  The script's main block. The world it runs in: the remote node its positional
  argument names, the service's answers to download requests, the local file system
  and the volumes' figures. The result is the exit status (2 is \<^verbatim>\<open>parser.error\<close>), the
  effects and the returned objects.
\<close>

record args =
  arg_local_folder_path :: "string option"
  arg_recursive :: bool
  arg_overwrite :: bool
  arg_return_object :: bool
  arg_mime_types :: "string list option"
  arg_file_extensions :: "string list option"

record world =
  w_remote :: rnode
  w_media :: "request \<Rightarrow> string option"
  w_fs :: filesystem
  w_statvfs :: "string \<Rightarrow> statvfs_result"

definition main :: "args \<Rightarrow> world \<Rightarrow> nat \<times> effect list \<times> file_object list" where
  "main a w =
     (if \<not> arg_return_object a \<and> \<not> truthy (arg_local_folder_path a) then (2, [], [])
      else
        (case check_disk_space (w_remote w) (w_fs w) (w_statvfs w) (arg_local_folder_path a)
                (arg_recursive a) (arg_mime_types a) (arg_file_extensions a) (arg_overwrite a) of
           (enough, effects) \<Rightarrow>
             if \<not> enough then (1, effects, [])
             else
               (case process_drive_item (w_media w) (w_remote w) (arg_local_folder_path a)
                       (arg_recursive a) (arg_overwrite a) (arg_return_object a)
                       (arg_mime_types a) (arg_file_extensions a) (w_fs w) of
                  (file_objects, effects', fs') \<Rightarrow> (0, effects @ effects', file_objects))))"

subsection \<open>Uploading one file\<close>

text \<open>
  The Drive as the list of its files, in the order in which a listing returns them.
  Only the metadata the upload script reads or sets are fields; what the service
  derives from the content (size, checksum, modification time) is not modelled.
\<close>

record drive_file =
  df_id :: string
  df_name :: string
  df_parents :: "string list"
  df_mimeType :: string
  df_trashed :: bool
  df_content :: string

type_synonym drive = "drive_file list"

text \<open>\<^verbatim>\<open>MediaFileUpload(file_path, resumable=True)\<close>: the guessed type and the bytes.\<close>

record media_upload =
  mu_mimetype :: string
  mu_content :: string

text \<open>\<^verbatim>\<open>os.path.basename\<close>: what follows the last separator.\<close>

definition basename :: "string \<Rightarrow> string" where
  "basename p = drop (nat (rfind p CHR ''/'' + 1)) p"

text \<open>
  \<^verbatim>\<open>file_exists\<close>: the query
  \<^verbatim>\<open>'<folder_id>' in parents and name='<file_name>' and mimeType!='application/vnd.google-apps.folder' and trashed=false\<close>
  by its meaning, and \<^verbatim>\<open>files[0]['id'] if files else None\<close>.
\<close>

definition file_exists :: "drive \<Rightarrow> string \<Rightarrow> string \<Rightarrow> string option" where
  "file_exists drive file_name folder_id =
     (case filter (\<lambda>f. folder_id \<in> set (df_parents f) \<and> df_name f = file_name
                        \<and> df_mimeType f \<noteq> folder_mime \<and> \<not> df_trashed f) drive of
        [] \<Rightarrow> None
      | f # files \<Rightarrow> Some (df_id f))"

text \<open>
  \<^verbatim>\<open>service.files().update(fileId=..., media_body=media)\<close>: a request with no metadata
  body and no change of parents; the service replaces the content of the file with
  that identifier.
\<close>

definition files_update :: "drive \<Rightarrow> string \<Rightarrow> media_upload \<Rightarrow> drive" where
  "files_update drive fileId media_body =
     map (\<lambda>f. if df_id f = fileId then f\<lparr>df_content := mu_content media_body\<rparr> else f) drive"

text \<open>
  \<^verbatim>\<open>service.files().create(body={"name": ..., "parents": [...]}, media_body=media, fields="id")\<close>;
  \<open>new_id\<close> is the identifier the service gives the new file.
\<close>

definition files_create :: "drive \<Rightarrow> string \<Rightarrow> string list \<Rightarrow> media_upload \<Rightarrow> string \<Rightarrow> drive" where
  "files_create drive name parents media_body new_id =
     drive @ [\<lparr>df_id = new_id, df_name = name, df_parents = parents,
               df_mimeType = mu_mimetype media_body, df_trashed = False,
               df_content = mu_content media_body\<rparr>]"

text \<open>
  \<^verbatim>\<open>upload_file\<close>: the identifier it returns and the Drive afterwards. \<open>http_ok\<close> says
  whether the service carries out the request; when it does not, the call raises
  \<^verbatim>\<open>HttpError\<close>, which the function catches, returning \<^verbatim>\<open>None\<close>.
\<close>

definition upload_file ::
  "drive \<Rightarrow> string \<Rightarrow> media_upload \<Rightarrow> string \<Rightarrow> bool \<Rightarrow> bool \<Rightarrow> string \<Rightarrow> string option \<times> drive" where
  "upload_file drive file_path media folder_id overwrite http_ok new_id =
     (let file_name = basename file_path;
          existing_file_id = file_exists drive file_name folder_id
      in case existing_file_id of
           None \<Rightarrow>
             if http_ok
             then (Some new_id, files_create drive file_name [folder_id] media new_id)
             else (None, drive)
         | Some fid \<Rightarrow>
             if fid \<noteq> []
             then (if overwrite
                   then (if http_ok then (Some fid, files_update drive fid media)
                         else (None, drive))
                   else (None, drive))
             else (if http_ok
                   then (Some new_id, files_create drive file_name [folder_id] media new_id)
                   else (None, drive)))"

subsection \<open>Notions the statements use\<close>

text \<open>The substring from the final dot of a string, the dot included; empty without a dot.\<close>

fun final_dot_suffix :: "string \<Rightarrow> string" where
  "final_dot_suffix [] = []"
| "final_dot_suffix (c # cs) =
     (if CHR ''.'' \<in> set cs then final_dot_suffix cs
      else if c = CHR ''.'' then c # cs else [])"

text \<open>The part of a path after its last separator.\<close>

definition last_component :: "string \<Rightarrow> string" where
  "last_component p = rev (takeWhile (\<lambda>c. c \<noteq> CHR ''/'') (rev p))"

text \<open>
  The extension in words: the substring from the final dot of the name's last
  component, the dot included, when a character other than a dot stands before that
  dot in the component; empty otherwise.
\<close>

definition name_extension :: "string \<Rightarrow> string" where
  "name_extension file_name =
     (let base = last_component file_name;
          ext = final_dot_suffix base;
          stem = take (length base - length ext) base
      in if ext \<noteq> [] \<and> list_ex (\<lambda>c. c \<noteq> CHR ''.'') stem then ext else [])"

text \<open>
  The inclusion rules in words, first match first, over a given notion of extension:
  a non-empty set of MIME types without the item's type excludes; else a non-empty set
  of extensions without the item's extension excludes; else an existing local file at
  the destination excludes unless objects are returned or files are overwritten; else
  the item is included.
\<close>

definition nonempty_set :: "string list option \<Rightarrow> bool" where
  "nonempty_set xs = (case xs of None \<Rightarrow> False | Some l \<Rightarrow> set l \<noteq> {})"

definition members :: "string list option \<Rightarrow> string set" where
  "members xs = (case xs of None \<Rightarrow> {} | Some l \<Rightarrow> set l)"

definition inclusion_rules ::
  "(string \<Rightarrow> string) \<Rightarrow> string \<Rightarrow> string \<Rightarrow> bool \<Rightarrow> string list option \<Rightarrow> string list option
     \<Rightarrow> bool \<Rightarrow> bool \<Rightarrow> bool" where
  "inclusion_rules extension_of mime_type file_name local_file_exists mime_types
       file_extensions return_object overwrite =
     (if nonempty_set mime_types \<and> mime_type \<notin> members mime_types then False
      else if nonempty_set file_extensions \<and> extension_of file_name \<notin> members file_extensions
        then False
      else if \<not> return_object \<and> \<not> overwrite \<and> local_file_exists then False
      else True)"





subsection \<open>Example inputs\<close>

text \<open>
  A remote folder F with a file A of 500 MiB, a subfolder S holding a file B of 2 GiB,
  and a small text file C.
\<close>

definition folder_item :: "string \<Rightarrow> string \<Rightarrow> remote_item" where
  "folder_item i n =
     \<lparr>item_id = i, item_name = n, item_mimeType = folder_mime, item_size = None\<rparr>"

definition file_item :: "string \<Rightarrow> string \<Rightarrow> string \<Rightarrow> nat \<Rightarrow> remote_item" where
  "file_item i n m s = \<lparr>item_id = i, item_name = n, item_mimeType = m, item_size = Some s\<rparr>"

definition example_tree :: rnode where
  "example_tree =
     RNode (folder_item ''idF'' ''F'')
       [RNode (file_item ''idA'' ''A.bin'' ''application/octet-stream'' 524288000) [],
        RNode (folder_item ''idS'' ''S'')
          [RNode (file_item ''idB'' ''B.bin'' ''application/octet-stream'' 2147483648) []],
        RNode (file_item ''idC'' ''C.txt'' ''text/plain'' 7) []]"

text \<open>
  A machine whose root volume has 100 GiB free and whose other volume, mounted below
  \<^verbatim>\<open>/mnt/usb\<close>, has 1 GiB free; an empty local file system; a service that answers
  every download request.
\<close>

definition example_statvfs :: "string \<Rightarrow> statvfs_result" where
  "example_statvfs path =
     (if path = ''/'' then \<lparr>f_frsize = 4096, f_blocks = 26214400, f_bavail = 26214400\<rparr>
      else \<lparr>f_frsize = 4096, f_blocks = 262144, f_bavail = 262144\<rparr>)"

definition example_world :: world where
  "example_world =
     \<lparr>w_remote = example_tree, w_media = (\<lambda>r. Some ''data''), w_fs = (\<lambda>p. None),
      w_statvfs = example_statvfs\<rparr>"

definition example_args :: args where
  "example_args =
     \<lparr>arg_local_folder_path = Some ''/mnt/usb/dl'', arg_recursive = True,
      arg_overwrite = False, arg_return_object = False, arg_mime_types = None,
      arg_file_extensions = None\<rparr>"

text \<open>
  A Drive with a file \<^verbatim>\<open>a.txt\<close> and a file \<^verbatim>\<open>b.txt\<close> in the folder \<^verbatim>\<open>dst\<close>,
  and a local file \<^verbatim>\<open>a.txt\<close> to upload.
\<close>

definition example_drive :: drive where
  "example_drive =
     [\<lparr>df_id = ''x1'', df_name = ''a.txt'', df_parents = [''dst''],
       df_mimeType = ''text/plain'', df_trashed = False, df_content = ''old''\<rparr>,
      \<lparr>df_id = ''x2'', df_name = ''b.txt'', df_parents = [''dst''],
       df_mimeType = ''text/plain'', df_trashed = False, df_content = ''other''\<rparr>]"

definition example_media :: media_upload where
  "example_media = \<lparr>mu_mimetype = ''text/plain'', mu_content = ''new''\<rparr>"

section \<open>Properties\<close>

subsection \<open>The size formatter\<close>







subsection \<open>The remote walk\<close>




lemma fetch_example_recursive:
  "fetch_files_in_folder example_tree True [] =
     [\<lparr>rf_id = ''idA'', rf_name = ''A.bin'', rf_mimeType = ''application/octet-stream'',
       rf_size = 524288000, rf_path = ''A.bin''\<rparr>,
      \<lparr>rf_id = ''idB'', rf_name = ''B.bin'', rf_mimeType = ''application/octet-stream'',
       rf_size = 2147483648, rf_path = ''S/B.bin''\<rparr>,
      \<lparr>rf_id = ''idC'', rf_name = ''C.txt'', rf_mimeType = ''text/plain'',
       rf_size = 7, rf_path = ''C.txt''\<rparr>]"
  by (simp add: example_tree_def folder_item_def file_item_def path_join_def Let_def
      folder_mime_def describe_def)




text \<open>
  C4 (the code departs from the claim). With \<open>recursive = False\<close> the walk of the
  example folder yields its three immediate children and nothing of the subfolder's
  content, but the second descriptor is the subfolder S itself: a folder-typed item,
  with size 0.
\<close>

theorem fetch_nonrecursive_yields_folder:
  "fetch_files_in_folder example_tree False [] =
     [\<lparr>rf_id = ''idA'', rf_name = ''A.bin'', rf_mimeType = ''application/octet-stream'',
       rf_size = 524288000, rf_path = ''A.bin''\<rparr>,
      \<lparr>rf_id = ''idS'', rf_name = ''S'', rf_mimeType = folder_mime,
       rf_size = 0, rf_path = ''S''\<rparr>,
      \<lparr>rf_id = ''idC'', rf_name = ''C.txt'', rf_mimeType = ''text/plain'',
       rf_size = 7, rf_path = ''C.txt''\<rparr>]"
  by (simp add: example_tree_def folder_item_def file_item_def path_join_def Let_def
      describe_def)

subsection \<open>The size total\<close>

lemma add_sizes_empty:
  "add_sizes remote_files Map.empty overwrite acc = acc + sum_list (map rf_size remote_files)"
  by (induction remote_files arbitrary: acc) simp_all

text \<open>
  C2 (the code departs from the claim). With the MIME filter \<^verbatim>\<open>application/pdf\<close>,
  which none of the three files of the example passes, and nothing on the local side,
  the total is still the sum of all three sizes.
\<close>

theorem total_ignores_filters:
  "calculate_total_download_size example_tree (\<lambda>p. None) ''dl'' True False
       (Some [''application/pdf'']) None = 524288000 + 2147483648 + 7
     \<and> and_not_in (Some [''application/pdf'']) ''application/octet-stream''
     \<and> and_not_in (Some [''application/pdf'']) ''text/plain''"
  by (simp add: calculate_total_download_size_def fetch_example_recursive os_walk_path_def
      and_not_in_def)

text \<open>
  C9. When nothing exists at the local root path, the local walk yields no directory,
  the mapping from relative paths to sizes stays empty, and the total is the sum of the
  sizes of all the remote items the walk yields: none is left out as already present.
\<close>

theorem absent_root_empty_mapping:
  assumes "fs local_folder_path = None"
  shows "os_walk_path fs local_folder_path = []
       \<and> record_walk (os_walk_path fs local_folder_path) Map.empty = Map.empty
       \<and> calculate_total_download_size folder fs local_folder_path recursive overwrite
             mime_types file_extensions
           = sum_list (map rf_size (fetch_files_in_folder folder recursive []))"
  using assms
  by (simp add: os_walk_path_def calculate_total_download_size_def add_sizes_empty)

theorem absent_root_empty_mapping_witness:
  "(\<lambda>p. None :: fsnode option) ''dl'' = None
     \<and> calculate_total_download_size example_tree (\<lambda>p. None) ''dl'' True False None None
         = 2671771655"
  using absent_root_empty_mapping [of "\<lambda>p. None" "''dl''" example_tree True False None None]
  by (simp add: fetch_example_recursive)

subsection \<open>The disk-space check\<close>

text \<open>
  C10. Without a local destination path (\<^verbatim>\<open>None\<close> or the empty string) the check
  answers success whatever the remote tree, the local file system and the volumes are,
  and it has no effect: no remote enumeration, no local walk, no query of free space.
\<close>

theorem check_disk_space_without_path:
  "check_disk_space folder fs statvfs None recursive mime_types file_extensions overwrite
       = (True, [])
     \<and> check_disk_space folder fs statvfs (Some []) recursive mime_types file_extensions
         overwrite = (True, [])"
  by (simp add: check_disk_space_def)

lemma main_example:
  "main example_args example_world =
     (0,
      [Remote_enumeration ''idF'' True, Local_walk ''/mnt/usb/dl'', Statvfs ''/'',
       Files_get ''idF'', Files_list ''idF'', Makedirs ''/mnt/usb/dl'',
       Media_download (Get_media ''idA''), File_write ''/mnt/usb/dl/A.bin'',
       Files_list ''idS'', Makedirs ''/mnt/usb/dl/S'',
       Media_download (Get_media ''idB''), File_write ''/mnt/usb/dl/S/B.bin'',
       Media_download (Get_media ''idC''), File_write ''/mnt/usb/dl/C.txt''],
      [])"
  by (simp add: main_def example_args_def example_world_def truthy_def check_disk_space_def
      calculate_total_download_size_def fetch_example_recursive os_walk_path_def
      disk_space_def example_statvfs_def Let_def process_drive_item_def example_tree_def
      folder_item_def file_item_def makedirs_def join_if_def path_join_def
      get_file_extension_def splitext_def should_process_file_def and_not_in_def
      and_exists_def download_file_def choose_request_def export_mime_types_def
      folder_mime_def describe_def skip_leading_dots.simps)

text \<open>
  C6 (the code departs from the claim). The destination \<^verbatim>\<open>/mnt/usb/dl\<close> lies on a
  volume with 1 GiB free and the download totals about 2.5 GiB, yet the run ends with
  status 0 after writing all three files: the check reads the free space of \<^verbatim>\<open>/\<close>,
  not of the destination's volume.
\<close>

theorem main_checks_root_volume:
  "f_bavail (example_statvfs ''/mnt/usb/dl'') * f_frsize (example_statvfs ''/mnt/usb/dl'')
       < calculate_total_download_size example_tree (\<lambda>p. None) ''/mnt/usb/dl'' True False
           None None
     \<and> fst (main example_args example_world) = 0
     \<and> fst (snd (main example_args example_world)) =
         [Remote_enumeration ''idF'' True, Local_walk ''/mnt/usb/dl'', Statvfs ''/'',
          Files_get ''idF'', Files_list ''idF'', Makedirs ''/mnt/usb/dl'',
          Media_download (Get_media ''idA''), File_write ''/mnt/usb/dl/A.bin'',
          Files_list ''idS'', Makedirs ''/mnt/usb/dl/S'',
          Media_download (Get_media ''idB''), File_write ''/mnt/usb/dl/S/B.bin'',
          Media_download (Get_media ''idC''), File_write ''/mnt/usb/dl/C.txt'']"
  by (simp add: main_example calculate_total_download_size_def fetch_example_recursive
      os_walk_path_def example_statvfs_def)

subsection \<open>Exported documents\<close>

text \<open>
  C5 (the code departs from the claim). A native document named \<^verbatim>\<open>Report\<close> is
  requested through the export to PDF, but the name the function reports is still
  \<^verbatim>\<open>Report\<close>: what is appended is the extension of the original name, here empty,
  not \<^verbatim>\<open>.pdf\<close>. A native document named \<^verbatim>\<open>notes.txt\<close> is reported as
  \<^verbatim>\<open>notes.txt.txt\<close>.
\<close>

theorem export_appends_original_extension:
  "choose_request ''idD'' ''Report'' ''application/vnd.google-apps.document''
       (get_file_extension ''Report'')
     = (Export_media ''idD'' ''application/pdf'', ''Report'')
   \<and> choose_request ''idN'' ''notes.txt'' ''application/vnd.google-apps.document''
       (get_file_extension ''notes.txt'')
     = (Export_media ''idN'' ''application/pdf'', ''notes.txt.txt'')
   \<and> fst (download_file (\<lambda>r. Some ''%PDF'') ''idD'' ''Report''
            ''application/vnd.google-apps.document'' (get_file_extension ''Report'') None True
            (\<lambda>p. None))
     = Some \<lparr>fo_file_id = ''idD'', fo_file_name = ''Report'',
             fo_mime_type = ''application/vnd.google-apps.document'',
             fo_file_extension = [], fo_content = ''%PDF''\<rparr>"
  by (simp add: choose_request_def export_mime_types_def get_file_extension_def splitext_def
      Let_def download_file_def skip_leading_dots.simps)

lemma main_exits_before_transfer:
  assumes "arg_local_folder_path a = Some path" and "path \<noteq> []"
    and "free_gb (disk_space (w_statvfs w))
           < of_nat (calculate_total_download_size (w_remote w) (w_fs w) path (arg_recursive a)
                       (arg_overwrite a) (arg_mime_types a) (arg_file_extensions a)) / 1024 ^ 3"
  shows "main a w =
           (1, [Remote_enumeration (item_id (meta (w_remote w))) (arg_recursive a),
                Local_walk path, Statvfs ''/''], [])"
  using assms by (simp add: main_def truthy_def check_disk_space_def Let_def)

subsection \<open>The inclusion decision\<close>

lemma takeWhile_notin: "c \<notin> set xs \<Longrightarrow> takeWhile (\<lambda>x. x \<noteq> c) xs = xs"
  by (induction xs) auto

lemma rfind_notin: "c \<notin> set s \<Longrightarrow> rfind s c = - 1"
  by (induction s) (auto simp: Let_def)

lemma rfind_last: "c \<notin> set zs \<Longrightarrow> rfind (ys @ c # zs) c = int (length ys)"
  by (induction ys) (simp_all add: Let_def rfind_notin)

lemma rfind_less: "rfind s c < int (length s)"
  by (induction s) (simp_all add: Let_def)

lemma rfind_append_notin: "c \<notin> set vs \<Longrightarrow> rfind (pre @ vs) c = rfind pre c"
  by (induction pre) (simp_all add: Let_def rfind_notin)

lemma skip_leading_dots_eq:
  "j \<le> length p \<Longrightarrow>
     skip_leading_dots p i j = list_ex (\<lambda>c. c \<noteq> CHR ''.'') (take (j - i) (drop i p))"
proof (induction p i j rule: skip_leading_dots.induct)
  case (1 p i j)
  show ?case
  proof (cases "i < j")
    case False
    then show ?thesis by (subst skip_leading_dots.simps) simp
  next
    case True
    with 1 have il: "i < length p" by simp
    then have d: "drop i p = p ! i # drop (Suc i) p"
      by (simp add: Cons_nth_drop_Suc)
    from True have t: "j - i = Suc (j - Suc i)" by simp
    show ?thesis
    proof (cases "p ! i \<noteq> CHR ''.''")
      case True
      with \<open>i < j\<close> d t show ?thesis
        by (subst skip_leading_dots.simps) simp
    next
      case False
      with 1 \<open>i < j\<close> have "skip_leading_dots p (Suc i) j
          = list_ex (\<lambda>c. c \<noteq> CHR ''.'') (take (j - Suc i) (drop (Suc i) p))"
        by simp
      with False \<open>i < j\<close> d t show ?thesis
        by (subst skip_leading_dots.simps) simp
    qed
  qed
qed

lemma final_dot_suffix_notin: "CHR ''.'' \<notin> set s \<Longrightarrow> final_dot_suffix s = []"
  by (induction s) auto

lemma final_dot_suffix_last:
  "CHR ''.'' \<notin> set zs \<Longrightarrow> final_dot_suffix (ys @ CHR ''.'' # zs) = CHR ''.'' # zs"
  by (induction ys) simp_all

lemma last_component_notin: "CHR ''/'' \<notin> set s \<Longrightarrow> last_component s = s"
  by (simp add: last_component_def takeWhile_notin)

lemma last_component_last:
  "CHR ''/'' \<notin> set vs \<Longrightarrow> last_component (us @ CHR ''/'' # vs) = vs"
  by (simp add: last_component_def takeWhile_tail takeWhile_notin)

lemma last_component_split:
  "\<exists>pre. p = pre @ last_component p \<and> rfind p CHR ''/'' + 1 = int (length pre)
         \<and> CHR ''/'' \<notin> set (last_component p)"
proof (cases "CHR ''/'' \<in> set p")
  case False
  then show ?thesis
    by (intro exI [of _ "[]"]) (simp add: last_component_notin rfind_notin)
next
  case True
  then obtain us vs where p: "p = us @ CHR ''/'' # vs" and n: "CHR ''/'' \<notin> set vs"
    by (auto dest: split_list_last)
  then show ?thesis
    by (intro exI [of _ "us @ ''/''"]) (simp add: last_component_last rfind_last)
qed

lemma get_file_extension_in_words: "get_file_extension p = name_extension p"
proof -
  obtain pre where p: "p = pre @ last_component p"
    and sep: "rfind p CHR ''/'' + 1 = int (length pre)"
    and nosep: "CHR ''/'' \<notin> set (last_component p)"
    using last_component_split by blast
  define base where "base = last_component p"
  from p base_def have pb: "p = pre @ base" by simp
  show ?thesis
  proof (cases "CHR ''.'' \<in> set base")
    case False
    then have "rfind p CHR ''.'' = rfind pre CHR ''.''"
      by (subst pb) (simp add: rfind_append_notin)
    also have "\<dots> < int (length pre)" by (rule rfind_less)
    finally have "\<not> rfind p CHR ''/'' < rfind p CHR ''.''" using sep by simp
    with False show ?thesis
      by (simp add: get_file_extension_def splitext_def Let_def name_extension_def
          base_def [symmetric] final_dot_suffix_notin)
  next
    case True
    then obtain ys zs where b: "base = ys @ CHR ''.'' # zs" and nd: "CHR ''.'' \<notin> set zs"
      by (auto dest: split_list_last)
    from pb b have pp: "p = (pre @ ys) @ CHR ''.'' # zs" by simp
    from nd have dot: "rfind p CHR ''.'' = int (length (pre @ ys))"
      by (subst pp) (rule rfind_last)
    have lt: "rfind p CHR ''/'' < rfind p CHR ''.''" using sep dot by simp
    have "skip_leading_dots p (nat (rfind p CHR ''/'' + 1)) (nat (rfind p CHR ''.''))
            = list_ex (\<lambda>c. c \<noteq> CHR ''.'') ys"
      using sep dot by (simp add: skip_leading_dots_eq pp)
    moreover have "drop (nat (rfind p CHR ''.'')) p = CHR ''.'' # zs"
      using dot by (simp add: pp)
    moreover have "final_dot_suffix base = CHR ''.'' # zs"
      using nd by (simp add: b final_dot_suffix_last)
    moreover have "take (length base - length (CHR ''.'' # zs)) base = ys"
      by (simp add: b)
    ultimately show ?thesis
      using lt
      by (simp add: get_file_extension_def splitext_def Let_def name_extension_def
          base_def [symmetric])
  qed
qed

lemma and_not_in_members:
  "and_not_in xs x = (nonempty_set xs \<and> x \<notin> members xs)"
  by (cases xs) (simp_all add: and_not_in_def nonempty_set_def members_def)

text \<open>
  C1, as stated, fails: for the name \<^verbatim>\<open>.bashrc\<close> and the extension set
  \<^verbatim>\<open>{.bashrc}\<close>, the rules over "the substring from the final dot" include the item
  (its extension would be \<^verbatim>\<open>.bashrc\<close>, a member), while the code excludes it: the
  extension the code computes is empty.
\<close>

theorem final_dot_extension_counterexample:
  "should_process_file ''text/plain'' (get_file_extension ''.bashrc'') None None
       (Some [''.bashrc'']) True False (\<lambda>p. False)
     \<noteq> inclusion_rules final_dot_suffix ''text/plain'' ''.bashrc'' False None
         (Some [''.bashrc'']) True False"
  by (simp add: should_process_file_def and_not_in_def get_file_extension_def splitext_def
      Let_def inclusion_rules_def nonempty_set_def members_def skip_leading_dots.simps)

text \<open>
  C1, amended. The decision applies the four rules in their order, first match first,
  where the item's extension is the one \<^verbatim>\<open>os.path.splitext\<close> gives: the substring
  from the final dot of the name's last component, the dot included, when a character
  other than a dot stands before that dot in the component, and the empty string
  otherwise. A local file counts as existing only for a destination path that is given.
\<close>

theorem should_process_file_rules:
  "should_process_file mime_type (get_file_extension file_name) file_path mime_types
       file_extensions return_object overwrite path_exists
     = inclusion_rules name_extension mime_type file_name (and_exists file_path path_exists)
         mime_types file_extensions return_object overwrite
   \<and> get_file_extension file_name = name_extension file_name"
  by (simp add: should_process_file_def inclusion_rules_def and_not_in_members
      get_file_extension_in_words)

theorem should_process_file_rules_witness:
  "should_process_file ''application/pdf'' (get_file_extension ''report.pdf'')
       (Some ''dl/report.pdf'') None (Some [''.pdf'']) False False (\<lambda>p. False)
     = True
   \<and> name_extension ''report.pdf'' = ''.pdf''
   \<and> name_extension ''.bashrc'' = []"
  using should_process_file_rules [of "''application/pdf''" "''report.pdf''"
      "Some ''dl/report.pdf''" None "Some [''.pdf'']" False False "\<lambda>p. False"]
  by (simp add: inclusion_rules_def nonempty_set_def members_def and_exists_def
      name_extension_def last_component_def should_process_file_def and_not_in_def
      get_file_extension_def splitext_def Let_def skip_leading_dots.simps)

subsection \<open>Overwriting an uploaded file\<close>

lemma files_update_metadata:
  "map (\<lambda>f. f\<lparr>df_content := []\<rparr>) (files_update drive fid media)
     = map (\<lambda>f. f\<lparr>df_content := []\<rparr>) drive"
  by (induction drive) (simp_all add: files_update_def)

lemma files_update_others:
  "filter (\<lambda>f. df_id f \<noteq> fid) (files_update drive fid media)
     = filter (\<lambda>f. df_id f \<noteq> fid) drive"
  by (induction drive) (simp_all add: files_update_def)

lemma files_update_content:
  "list_all (\<lambda>f. df_id f \<noteq> fid \<or> df_content f = mu_content media)
     (files_update drive fid media)"
  by (induction drive) (simp_all add: files_update_def)

lemma file_exists_Some:
  assumes "file_exists drive file_name folder_id = Some fid"
  shows "list_ex (\<lambda>f. df_id f = fid \<and> folder_id \<in> set (df_parents f) \<and> df_name f = file_name
                      \<and> df_mimeType f \<noteq> folder_mime \<and> \<not> df_trashed f) drive"
proof -
  let ?P = "\<lambda>f. folder_id \<in> set (df_parents f) \<and> df_name f = file_name
                  \<and> df_mimeType f \<noteq> folder_mime \<and> \<not> df_trashed f"
  from assms obtain f files where eq: "filter ?P drive = f # files" and fid: "df_id f = fid"
    by (auto simp: file_exists_def split: list.splits)
  from eq have "f \<in> set (filter ?P drive)" by simp
  then have "f \<in> set drive" and "?P f" by simp_all
  with fid show ?thesis by (auto simp: list_ex_iff)
qed

text \<open>
  C8. When \<^verbatim>\<open>file_exists\<close> finds a file of that name in the destination folder and
  overwrite is on, the Drive afterwards has the same files with the same identifiers,
  names, parents, types and trash flags as before (it equals the old Drive up to
  contents); every file with another identifier is untouched; the call returns the
  existing identifier and that file has the new content when the request goes through,
  and nothing at all changes when it does not. The file found is in the destination
  folder under the uploaded name.
\<close>

theorem upload_overwrite_frame:
  assumes "file_exists drive (basename file_path) folder_id = Some fid"
    and "fid \<noteq> []"
  shows "map (\<lambda>f. f\<lparr>df_content := []\<rparr>)
             (snd (upload_file drive file_path media folder_id True http_ok new_id))
           = map (\<lambda>f. f\<lparr>df_content := []\<rparr>) drive
       \<and> filter (\<lambda>f. df_id f \<noteq> fid)
             (snd (upload_file drive file_path media folder_id True http_ok new_id))
           = filter (\<lambda>f. df_id f \<noteq> fid) drive
       \<and> upload_file drive file_path media folder_id True http_ok new_id
           = (if http_ok then (Some fid, files_update drive fid media) else (None, drive))
       \<and> list_all (\<lambda>f. df_id f \<noteq> fid \<or> df_content f = mu_content media)
             (files_update drive fid media)
       \<and> list_ex (\<lambda>f. df_id f = fid \<and> folder_id \<in> set (df_parents f)
                       \<and> df_name f = basename file_path) drive"
proof -
  from assms have up: "upload_file drive file_path media folder_id True http_ok new_id
           = (if http_ok then (Some fid, files_update drive fid media) else (None, drive))"
    by (simp add: upload_file_def Let_def)
  from file_exists_Some [OF assms(1)]
  have ex: "list_ex (\<lambda>f. df_id f = fid \<and> folder_id \<in> set (df_parents f)
                       \<and> df_name f = basename file_path) drive"
    by (auto simp: list_ex_iff)
  from up files_update_metadata [of drive fid media]
  have meta: "map (\<lambda>f. f\<lparr>df_content := []\<rparr>)
             (snd (upload_file drive file_path media folder_id True http_ok new_id))
           = map (\<lambda>f. f\<lparr>df_content := []\<rparr>) drive"
    by simp
  from up files_update_others [of fid drive media]
  have others: "filter (\<lambda>f. df_id f \<noteq> fid)
             (snd (upload_file drive file_path media folder_id True http_ok new_id))
           = filter (\<lambda>f. df_id f \<noteq> fid) drive"
    by simp
  from meta others up files_update_content [of fid media drive] ex show ?thesis
    by blast
qed

lemma file_exists_example:
  "file_exists example_drive (basename ''/home/u/a.txt'') ''dst'' = Some ''x1''"
  by (simp add: file_exists_def example_drive_def basename_def Let_def folder_mime_def)

theorem upload_overwrite_frame_witness:
  "file_exists example_drive (basename ''/home/u/a.txt'') ''dst'' = Some ''x1''
     \<and> upload_file example_drive ''/home/u/a.txt'' example_media ''dst'' True True ''x9''
         = (Some ''x1'',
            [\<lparr>df_id = ''x1'', df_name = ''a.txt'', df_parents = [''dst''],
              df_mimeType = ''text/plain'', df_trashed = False, df_content = ''new''\<rparr>,
             \<lparr>df_id = ''x2'', df_name = ''b.txt'', df_parents = [''dst''],
              df_mimeType = ''text/plain'', df_trashed = False, df_content = ''other''\<rparr>])"
proof -
  have "upload_file example_drive ''/home/u/a.txt'' example_media ''dst'' True True ''x9''
          = (Some ''x1'', files_update example_drive ''x1'' example_media)"
    using upload_overwrite_frame [OF file_exists_example, of example_media True "''x9''"]
    by simp
  moreover have "files_update example_drive ''x1'' example_media =
            [\<lparr>df_id = ''x1'', df_name = ''a.txt'', df_parents = [''dst''],
              df_mimeType = ''text/plain'', df_trashed = False, df_content = ''new''\<rparr>,
             \<lparr>df_id = ''x2'', df_name = ''b.txt'', df_parents = [''dst''],
              df_mimeType = ''text/plain'', df_trashed = False, df_content = ''other''\<rparr>]"
    by (simp add: files_update_def example_drive_def example_media_def)
  ultimately show ?thesis
    using file_exists_example by simp
qed

end
